theory Spec2Isabelle
  imports Main
begin

section \<open>JavaScript values\<close>

text \<open>
  The backend (\<^verbatim>\<open>src/api/index.js\<close>) is an Express application whose route handlers talk
  to two external services through the AWS SDK: the object store (S3) and the outbound
  mail service (SES), and to the \<^verbatim>\<open>mailparser\<close> library. The handlers are modelled as
  they run behind the \<^verbatim>\<open>authenticate\<close> middleware; the login route and the route that
  lists the senders are left out. The second source file is an earlier version of the same
  backend, with the same handlers and a constant list of senders.

  Strings are lists of characters; a character stands for one code unit. The model covers
  code units below 256, which is enough for every literal of the source. A value that may
  be \<^verbatim>\<open>undefined\<close> is an \<open>option\<close>. An exception is a value \<open>Error msg\<close>
  (\<^verbatim>\<open>err.message\<close>), and an operation that may throw returns \<open>error + 'a\<close>.
\<close>

type_synonym bytes = string
type_synonym key = string

datatype error = Error string

fun message :: "error \<Rightarrow> string" where
  "message (Error m) = m"

text \<open>Truthiness of a string that may be undefined: \<^verbatim>\<open>!v\<close> is \<open>\<not> truthy v\<close>.\<close>

definition truthy :: "string option \<Rightarrow> bool" where
  "truthy v = (case v of None \<Rightarrow> False | Some s \<Rightarrow> s \<noteq> [])"

text \<open>\<^verbatim>\<open>a || b\<close> on two strings that may be undefined, and \<^verbatim>\<open>a || "literal"\<close>.\<close>

definition js_or :: "string option \<Rightarrow> string option \<Rightarrow> string option" where
  "js_or a b = (if truthy a then a else b)"

definition or_str :: "string option \<Rightarrow> string \<Rightarrow> string" where
  "or_str a d = (case a of None \<Rightarrow> d | Some s \<Rightarrow> if s = [] then d else s)"

text \<open>
  \<^verbatim>\<open>Array.prototype.sort(cmp)\<close> is a stable sort: \<open>a\<close> stays before \<open>b\<close> unless
  \<open>cmp a b > 0\<close>. For a consistent comparator the result of a stable sort is unique, and
  insertion from the right computes it.
\<close>

fun insert_cmp :: "('a \<Rightarrow> 'a \<Rightarrow> int) \<Rightarrow> 'a \<Rightarrow> 'a list \<Rightarrow> 'a list" where
  "insert_cmp cmp x [] = [x]"
| "insert_cmp cmp x (y # ys) =
     (if cmp x y \<le> 0 then x # y # ys else y # insert_cmp cmp x ys)"

definition js_sort :: "('a \<Rightarrow> 'a \<Rightarrow> int) \<Rightarrow> 'a list \<Rightarrow> 'a list" where
  "js_sort cmp xs = foldr (insert_cmp cmp) xs []"

section \<open>The external services\<close>

text \<open>One entry of \<^verbatim>\<open>listRes.Contents\<close>; \<open>LastModified\<close> in milliseconds.\<close>

record s3entry =
  Key :: key
  Size :: nat
  LastModified :: int

text \<open>The answer to a batch delete: the keys deleted, and the keys refused with a code.\<close>

record delete_result =
  Deleted :: "key list"
  Errors :: "(key \<times> string) list"

text \<open>What \<^verbatim>\<open>simpleParser\<close> returns, as far as the handlers read it.\<close>

record attachment =
  filename :: "string option"
  att_size :: nat
  contentType :: string
  content :: bytes

record parsed =
  p_text :: "string option"
  p_html :: "string option"
  p_textAsHtml :: "string option"
  p_from :: "string option"
  p_to :: "string option"
  p_headers :: "string \<Rightarrow> string option"
  p_subject :: "string option"
  p_date :: "int option"
  p_attachments :: "attachment list option"

text \<open>The raw send request handed to SES (\<^verbatim>\<open>SendEmailCommand\<close>).\<close>

record ses_command =
  RawData :: bytes
  ToAddresses :: "string list"
  CcAddresses :: "string list"
  BccAddresses :: "string list"
  FromEmailAddress :: string

text \<open>
  The handlers reach the services only through \<^verbatim>\<open>s3Client.send\<close>, \<^verbatim>\<open>sesClient.send\<close>
  and \<^verbatim>\<open>simpleParser\<close>. The model takes them as parameters: one field per command the
  source sends. \<open>'s\<close> is the state of the world outside the process; each request takes it
  and returns it, with either an error or the answer. \<open>s3_get\<close> includes reading the body
  stream (\<^verbatim>\<open>streamToString\<close>). \<open>S3_BUCKET\<close> is the environment variable.
\<close>

record 's env =
  S3_BUCKET :: string
  s3_list :: "'s \<Rightarrow> string \<Rightarrow> string option \<Rightarrow> (error + s3entry list option) \<times> 's"
  s3_get :: "'s \<Rightarrow> key \<Rightarrow> (error + bytes) \<times> 's"
  s3_put :: "'s \<Rightarrow> key \<Rightarrow> bytes \<Rightarrow> (error + unit) \<times> 's"
  s3_copy :: "'s \<Rightarrow> string \<Rightarrow> key \<Rightarrow> (error + unit) \<times> 's"
  s3_delete :: "'s \<Rightarrow> key \<Rightarrow> (error + unit) \<times> 's"
  s3_delete_objects :: "'s \<Rightarrow> key list \<Rightarrow> (error + delete_result) \<times> 's"
  ses_send :: "'s \<Rightarrow> ses_command \<Rightarrow> (error + string option) \<times> 's"
  simpleParser :: "bytes \<Rightarrow> error + parsed"
  base64 :: "bytes \<Rightarrow> string"

section \<open>Mailbox listing: getEmailsFromS3\<close>

definition INBOX_PREFIX :: string where "INBOX_PREFIX = []"
definition SENT_PREFIX :: string where "SENT_PREFIX = ''sent/''"
definition TRASH_PREFIX :: string where "TRASH_PREFIX = ''trash/''"

record att_summary =
  as_filename :: "string option"
  as_size :: nat
  as_index :: nat

record email =
  em_id :: key
  em_from :: string
  em_to :: string
  em_sender :: string
  em_subject :: string
  em_date :: int
  em_snippet :: string
  em_htmlBody :: string
  em_hasAttachments :: bool
  em_attachments :: "att_summary list"

record mailbox_view =
  emails :: "email list"
  totalCount :: nat

text \<open>\<^verbatim>\<open>listCmdParams.Delimiter\<close>: set to \<^verbatim>\<open>'/'\<close> for the inbox only.\<close>

definition list_delimiter :: "string \<Rightarrow> string option" where
  "list_delimiter prefix = (if prefix = INBOX_PREFIX then Some ''/'' else None)"

text \<open>The comparator \<^verbatim>\<open>(a, b) => new Date(b.LastModified) - new Date(a.LastModified)\<close>.\<close>

definition by_last_modified_desc :: "s3entry \<Rightarrow> s3entry \<Rightarrow> int" where
  "by_last_modified_desc a b = LastModified b - LastModified a"

text \<open>\<^verbatim>\<open>listRes.Contents || []\<close>.\<close>

definition listed :: "s3entry list option \<Rightarrow> s3entry list" where
  "listed contents = (case contents of None \<Rightarrow> [] | Some c \<Rightarrow> c)"

text \<open>The constant \<^verbatim>\<open>objects\<close>: filter, sort, slice(0, 100).\<close>

definition select_objects :: "string \<Rightarrow> s3entry list option \<Rightarrow> s3entry list" where
  "select_objects prefix contents =
     take 100 (js_sort by_last_modified_desc
       (filter (\<lambda>obj. Key obj \<noteq> prefix \<and> 0 < Size obj) (listed contents)))"

section \<open>The regular expressions of the snippet\<close>

text \<open>
  The snippet is derived by four \<^verbatim>\<open>String.prototype.replace\<close> calls with regular
  expressions. Each of them is a sequence of single-character atoms, some under a greedy
  \<^verbatim>\<open>*\<close> or \<^verbatim>\<open>+\<close>. The matcher below is the backtracking matcher of the language
  for such patterns: a greedy quantifier first tries one more character and gives it back
  when the rest of the pattern fails. The flags of the source are \<^verbatim>\<open>g\<close> (replace every
  match), \<^verbatim>\<open>s\<close> (the dot matches line terminators too) and \<^verbatim>\<open>m\<close> (no effect without
  anchors); there is no \<^verbatim>\<open>i\<close> flag, so letters match case-sensitively.
\<close>

datatype atom = Ch char | NotCh char | AnyCh | Ws

datatype item = One atom | Star atom | Plus atom

text \<open>\<^verbatim>\<open>\s\<close> and \<^verbatim>\<open>trim\<close>: the white space and line terminators below code unit 256.\<close>

definition is_space :: "char \<Rightarrow> bool" where
  "is_space c =
     (c \<in> set [CHR 0x09, CHR 0x0A, CHR 0x0B, CHR 0x0C, CHR 0x0D, CHR '' '', CHR 0xA0])"

fun atom_ok :: "atom \<Rightarrow> char \<Rightarrow> bool" where
  "atom_ok (Ch a) c = (c = a)"
| "atom_ok (NotCh a) c = (c \<noteq> a)"
| "atom_ok AnyCh c = True"
| "atom_ok Ws c = is_space c"

text \<open>\<open>rx_match p s\<close>: the pattern matched at the start of \<open>s\<close>, returning what follows the match.\<close>

fun rx_match :: "item list \<Rightarrow> string \<Rightarrow> string option" where
  "rx_match [] s = Some s"
| "rx_match (One a # r) [] = None"
| "rx_match (One a # r) (c # cs) = (if atom_ok a c then rx_match r cs else None)"
| "rx_match (Plus a # r) [] = None"
| "rx_match (Plus a # r) (c # cs) = (if atom_ok a c then rx_match (Star a # r) cs else None)"
| "rx_match (Star a # r) [] = rx_match r []"
| "rx_match (Star a # r) (c # cs) =
     (if atom_ok a c
      then (case rx_match (Star a # r) cs of
              Some t \<Rightarrow> Some t
            | None \<Rightarrow> rx_match r (c # cs))
      else rx_match r (c # cs))"

text \<open>
  \<^verbatim>\<open>s.replace(/p/g, rep)\<close>: scan from the left; at a match, emit the replacement and go on
  after the match (after an empty match, copy one character and go on behind it).
\<close>

function replace_all :: "item list \<Rightarrow> string \<Rightarrow> string \<Rightarrow> string" where
  "replace_all p rep [] = (case rx_match p [] of Some t \<Rightarrow> rep | None \<Rightarrow> [])"
| "replace_all p rep (c # cs) =
     (case rx_match p (c # cs) of
        None \<Rightarrow> c # replace_all p rep cs
      | Some t \<Rightarrow>
          if length t < length (c # cs) then rep @ replace_all p rep t
          else rep @ c # replace_all p rep cs)"
  by pat_completeness auto
termination
  by (relation "measure (\<lambda>(p, rep, s). length s)") auto

definition lits :: "string \<Rightarrow> item list" where
  "lits w = map (\<lambda>c. One (Ch c)) w"

text \<open>\<^verbatim>\<open>/<style[^>]*>.*<\/style>/gms\<close> and \<^verbatim>\<open>/<script[^>]*>.*<\/script>/gms\<close>.\<close>

definition block_rx :: "string \<Rightarrow> item list" where
  "block_rx name =
     lits (''<'' @ name) @ [Star (NotCh CHR ''>''), One (Ch CHR ''>''), Star AnyCh]
       @ lits (''</'' @ name @ ''>'')"

text \<open>\<^verbatim>\<open>/<[^>]*>/g\<close> and \<^verbatim>\<open>/\s+/g\<close>.\<close>

definition tag_rx :: "item list" where
  "tag_rx = [One (Ch CHR ''<''), Star (NotCh CHR ''>''), One (Ch CHR ''>'')]"

definition ws_rx :: "item list" where
  "ws_rx = [Plus Ws]"

definition trim :: "string \<Rightarrow> string" where
  "trim s = rev (dropWhile is_space (rev (dropWhile is_space s)))"

text \<open>The chain of line 163 of the source.\<close>

definition html_to_text :: "string \<Rightarrow> string" where
  "html_to_text html =
     trim (replace_all ws_rx '' '' (replace_all tag_rx '' ''
       (replace_all (block_rx ''script'') [] (replace_all (block_rx ''style'') [] html))))"

text \<open>
  \<^verbatim>\<open>let textSnippet = parsed.text || ''; if (!textSnippet && parsed.html) ...\<close>
\<close>

definition textSnippet :: "parsed \<Rightarrow> string" where
  "textSnippet p =
     (let t = or_str (p_text p) [] in
      if t = [] \<and> truthy (p_html p) then html_to_text (or_str (p_html p) []) else t)"

section \<open>One listed message\<close>

text \<open>The object literal returned by the callback of \<^verbatim>\<open>objects.map\<close>.\<close>

definition to_email :: "s3entry \<Rightarrow> parsed \<Rightarrow> email" where
  "to_email obj p =
     (let attachments = (case p_attachments p of None \<Rightarrow> [] | Some a \<Rightarrow> a) in
      \<lparr> em_id = Key obj,
        em_from = or_str (p_from p) [],
        em_to = or_str (p_to p) [],
        em_sender = or_str (js_or (p_headers p ''x-maildeck-sender'') (p_from p)) [],
        em_subject = or_str (p_subject p) ''(no subject)'',
        em_date = (case p_date p of None \<Rightarrow> LastModified obj | Some d \<Rightarrow> d),
        em_snippet = take 200 (textSnippet p),
        em_htmlBody = or_str (js_or (p_html p) (p_textAsHtml p)) [],
        em_hasAttachments = (0 < length attachments),
        em_attachments =
          map (\<lambda>(index, a). \<lparr> as_filename = filename a, as_size = att_size a, as_index = index \<rparr>)
            (enumerate 0 attachments) \<rparr>)"

text \<open>The callback: fetch the object, read its body, parse it, summarise it.\<close>

definition fetch_email :: "'s env \<Rightarrow> s3entry \<Rightarrow> 's \<Rightarrow> (error + email) \<times> 's" where
  "fetch_email env obj s =
     (case s3_get env s (Key obj) of
        (Inl e, s') \<Rightarrow> (Inl e, s')
      | (Inr rawEmail, s') \<Rightarrow>
          (case simpleParser env rawEmail of
             Inl e \<Rightarrow> (Inl e, s')
           | Inr p \<Rightarrow> (Inr (to_email obj p), s')))"

text \<open>
  \<^verbatim>\<open>objects.map(async ...)\<close> issues the requests in the order of \<open>objects\<close>, whatever
  their outcomes; \<^verbatim>\<open>Promise.all\<close> then gives the results in that order, or rejects when
  one of them is rejected. The model reports the rejection that comes first in the list;
  the source reports the one that comes first in time.
\<close>

fun fetch_all :: "'s env \<Rightarrow> s3entry list \<Rightarrow> 's \<Rightarrow> (error + email) list \<times> 's" where
  "fetch_all env [] s = ([], s)"
| "fetch_all env (obj # objs) s =
     (case fetch_email env obj s of
        (r, s1) \<Rightarrow> (case fetch_all env objs s1 of (rs, s2) \<Rightarrow> (r # rs, s2)))"

fun promise_all :: "(error + 'a) list \<Rightarrow> error + 'a list" where
  "promise_all [] = Inr []"
| "promise_all (r # rs) =
     (case r of
        Inl e \<Rightarrow> Inl e
      | Inr v \<Rightarrow> (case promise_all rs of Inl e \<Rightarrow> Inl e | Inr vs \<Rightarrow> Inr (v # vs)))"

definition getEmailsFromS3 :: "'s env \<Rightarrow> string \<Rightarrow> 's \<Rightarrow> (error + mailbox_view) \<times> 's" where
  "getEmailsFromS3 env prefix s =
     (case s3_list env s prefix (list_delimiter prefix) of
        (Inl e, s1) \<Rightarrow> (Inl e, s1)
      | (Inr contents, s1) \<Rightarrow>
          (let objects = select_objects prefix contents in
           case fetch_all env objects s1 of
             (results, s2) \<Rightarrow>
               (case promise_all results of
                  Inl e \<Rightarrow> (Inl e, s2)
                | Inr ems \<Rightarrow> (Inr \<lparr> emails = ems, totalCount = length objects \<rparr>, s2))))"

section \<open>HTTP responses\<close>

datatype jval = JStr string | JBool bool

datatype body =
    Json "(string \<times> jval) list"
  | View mailbox_view
  | Text string
  | Binary bytes

record response =
  status :: nat
  headers :: "(string \<times> string) list"
  body :: body

text \<open>\<^verbatim>\<open>res.json(v)\<close> and \<^verbatim>\<open>res.status(n).json(v)\<close>; \<^verbatim>\<open>res.status(n).send(text)\<close>.\<close>

definition json :: "nat \<Rightarrow> (string \<times> jval) list \<Rightarrow> response" where
  "json n v = \<lparr> status = n, headers = [], body = Json v \<rparr>"

definition send_text :: "nat \<Rightarrow> string \<Rightarrow> response" where
  "send_text n t = \<lparr> status = n, headers = [], body = Text t \<rparr>"

text \<open>A value in a template literal: \<^verbatim>\<open>`${v}`\<close>.\<close>

definition tmpl :: "string option \<Rightarrow> string" where
  "tmpl v = (case v of None \<Rightarrow> ''undefined'' | Some s \<Rightarrow> s)"

definition digit_char :: "nat \<Rightarrow> char" where
  "digit_char d = ''0123456789'' ! d"

function show_nat :: "nat \<Rightarrow> string" where
  "show_nat n = (if n < 10 then [digit_char n] else show_nat (n div 10) @ [digit_char (n mod 10)])"
  by pat_completeness auto
termination
  by (relation "measure (\<lambda>n. n)") auto

section \<open>The folder routes\<close>

text \<open>
  The handlers of \<^verbatim>\<open>GET /inbox\<close>, \<^verbatim>\<open>/sent\<close> and \<^verbatim>\<open>/trash\<close>, behind the
  \<^verbatim>\<open>authenticate\<close> middleware: the view, or status 500 with the error's message.
\<close>

definition folder_route :: "'s env \<Rightarrow> string \<Rightarrow> string \<Rightarrow> 's \<Rightarrow> response \<times> 's" where
  "folder_route env prefix failure s =
     (case getEmailsFromS3 env prefix s of
        (Inr v, s') \<Rightarrow> (\<lparr> status = 200, headers = [], body = View v \<rparr>, s')
      | (Inl err, s') \<Rightarrow>
          (json 500 [(''message'', JStr failure), (''detail'', JStr (message err))], s'))"

definition get_inbox :: "'s env \<Rightarrow> 's \<Rightarrow> response \<times> 's" where
  "get_inbox env s = folder_route env INBOX_PREFIX ''Failed to load inbox'' s"

definition get_sent :: "'s env \<Rightarrow> 's \<Rightarrow> response \<times> 's" where
  "get_sent env s = folder_route env SENT_PREFIX ''Failed to load sent items'' s"

definition get_trash :: "'s env \<Rightarrow> 's \<Rightarrow> response \<times> 's" where
  "get_trash env s = folder_route env TRASH_PREFIX ''Failed to load trash'' s"

section \<open>Sending: POST /send-email\<close>

definition getVerifiedSenders :: "string list" where
  "getVerifiedSenders = [''admin@oodac.com'', ''feeback-spinfinity@oodac.com'']"

record upfile =
  originalname :: string
  buffer :: bytes
  mimetype :: string

record send_request =
  b_from :: "string option"
  b_to :: "string option"
  b_cc :: "string option"
  b_bcc :: "string option"
  b_subject :: "string option"
  b_html :: "string option"
  files :: "upfile list option"

definition nl :: string where "nl = [CHR 0x0A]"
definition dq :: string where "dq = [CHR 0x22]"

text \<open>\<^verbatim>\<open>s.split(',')\<close>.\<close>

fun split_on :: "char \<Rightarrow> string \<Rightarrow> string list" where
  "split_on d [] = [[]]"
| "split_on d (c # cs) =
     (if c = d then [] # split_on d cs
      else (case split_on d cs of [] \<Rightarrow> [[c]] | w # ws \<Rightarrow> (c # w) # ws))"

text \<open>The text appended per attachment by \<^verbatim>\<open>attachments.forEach\<close>.\<close>

definition attachment_part :: "'s env \<Rightarrow> upfile \<Rightarrow> string" where
  "attachment_part env f =
     ''--boundary_12345'' @ nl
     @ ''Content-Type: '' @ mimetype f @ ''; name='' @ dq @ originalname f @ dq @ nl
     @ ''Content-Transfer-Encoding: base64'' @ nl
     @ ''Content-Disposition: attachment; filename='' @ dq @ originalname f @ dq @ nl @ nl
     @ base64 env (buffer f) @ nl @ nl"

definition build_raw :: "'s env \<Rightarrow> send_request \<Rightarrow> string" where
  "build_raw env req =
     ''From: '' @ tmpl (b_from req) @ nl @ ''To: '' @ tmpl (b_to req) @ nl
     @ (if truthy (b_cc req) then ''Cc: '' @ tmpl (b_cc req) @ nl else [])
     @ ''Subject: '' @ tmpl (b_subject req) @ nl
     @ ''X-MailDeck-Sender: '' @ tmpl (b_from req) @ nl
     @ ''MIME-Version: 1.0'' @ nl
     @ ''Content-Type: multipart/mixed; boundary='' @ dq @ ''boundary_12345'' @ dq @ nl @ nl
     @ ''--boundary_12345'' @ nl
     @ ''Content-Type: text/html; charset=UTF-8'' @ nl @ nl
     @ tmpl (b_html req) @ nl @ nl
     @ concat (map (attachment_part env) (case files req of None \<Rightarrow> [] | Some fs \<Rightarrow> fs))
     @ ''--boundary_12345--''"

definition send_command :: "send_request \<Rightarrow> string \<Rightarrow> ses_command" where
  "send_command req rawEmail =
     \<lparr> RawData = rawEmail,
       ToAddresses = split_on CHR '','' (tmpl (b_to req)),
       CcAddresses = (if truthy (b_cc req) then split_on CHR '','' (tmpl (b_cc req)) else []),
       BccAddresses = (if truthy (b_bcc req) then split_on CHR '','' (tmpl (b_bcc req)) else []),
       FromEmailAddress = tmpl (b_from req) \<rparr>"

definition send_failed :: "error \<Rightarrow> response" where
  "send_failed err =
     json 500 [(''message'', JStr ''Failed to send email''), (''detail'', JStr (message err))]"

text \<open>The handler: validation, then the \<^verbatim>\<open>try\<close> block with its single \<^verbatim>\<open>catch\<close>.\<close>

definition send_email :: "'s env \<Rightarrow> send_request \<Rightarrow> 's \<Rightarrow> response \<times> 's" where
  "send_email env req s =
     (let allowedSenders = getVerifiedSenders in
      if \<not> truthy (b_from req) \<or> \<not> truthy (b_to req) \<or> \<not> truthy (b_subject req)
         \<or> \<not> truthy (b_html req)
      then (json 400 [(''message'', JStr ''Missing required fields'')], s)
      else if tmpl (b_from req) \<notin> set allowedSenders
      then (json 403 [(''message'',
              JStr (''Sending from '' @ tmpl (b_from req) @ '' is not permitted or verified.''))], s)
      else
        (let rawEmail = build_raw env req in
         case ses_send env s (send_command req rawEmail) of
           (Inl err, s1) \<Rightarrow> (send_failed err, s1)
         | (Inr messageId, s1) \<Rightarrow>
             (case s3_put env s1 (SENT_PREFIX @ tmpl messageId) rawEmail of
                (Inl err, s2) \<Rightarrow> (send_failed err, s2)
              | (Inr u, s2) \<Rightarrow>
                  (json 200 ((''message'', JStr ''Email sent'')
                     # (case messageId of None \<Rightarrow> [] | Some m \<Rightarrow> [(''messageId'', JStr m)])),
                   s2))))"

section \<open>Folder transitions\<close>

text \<open>
  \<^verbatim>\<open>path.basename\<close> of Node.js on POSIX: trailing slashes are dropped, then the part after
  the last slash is returned.
\<close>

definition basename :: "string \<Rightarrow> string" where
  "basename p =
     rev (takeWhile (\<lambda>c. c \<noteq> CHR ''/'') (dropWhile (\<lambda>c. c = CHR ''/'') (rev p)))"

definition trash_key :: "key \<Rightarrow> key" where
  "trash_key ident = TRASH_PREFIX @ basename ident"

text \<open>
  The \<^verbatim>\<open>for ... of\<close> loop of the handler: copy, then delete, id after id; the first
  exception leaves the loop.
\<close>

fun move_each :: "'s env \<Rightarrow> key list \<Rightarrow> 's \<Rightarrow> (error + unit) \<times> 's" where
  "move_each env [] s = (Inr (), s)"
| "move_each env (ident # rest) s =
     (case s3_copy env s (S3_BUCKET env @ ''/'' @ ident) (trash_key ident) of
        (Inl err, s1) \<Rightarrow> (Inl err, s1)
      | (Inr u, s1) \<Rightarrow>
          (case s3_delete env s1 ident of
             (Inl err, s2) \<Rightarrow> (Inl err, s2)
           | (Inr u', s2) \<Rightarrow> move_each env rest s2))"

definition no_ids :: response where
  "no_ids = json 400 [(''message'', JStr ''No email IDs provided'')]"

text \<open>
  \<open>emailIds\<close> is \<open>None\<close> when the field is missing or not an array; its elements are
  strings.
\<close>

definition move_to_trash :: "'s env \<Rightarrow> key list option \<Rightarrow> 's \<Rightarrow> response \<times> 's" where
  "move_to_trash env emailIds s =
     (case emailIds of
        None \<Rightarrow> (no_ids, s)
      | Some ids \<Rightarrow>
          if length ids = 0 then (no_ids, s)
          else
            (case move_each env ids s of
               (Inr u, s') \<Rightarrow>
                 (json 200 [(''success'', JBool True),
                    (''message'', JStr (''Moved '' @ show_nat (length ids) @ '' email(s) to trash.''))],
                  s')
             | (Inl err, s') \<Rightarrow>
                 (json 500 [(''message'', JStr ''Failed to move emails to trash''),
                    (''detail'', JStr (message err))], s')))"

definition delete_permanently :: "'s env \<Rightarrow> key list option \<Rightarrow> 's \<Rightarrow> response \<times> 's" where
  "delete_permanently env emailIds s =
     (case emailIds of
        None \<Rightarrow> (no_ids, s)
      | Some ids \<Rightarrow>
          if length ids = 0 then (no_ids, s)
          else
            (case s3_delete_objects env s ids of
               (Inr answer, s') \<Rightarrow>
                 (json 200 [(''success'', JBool True),
                    (''message'',
                       JStr (''Permanently deleted '' @ show_nat (length ids) @ '' email(s).''))],
                  s')
             | (Inl err, s') \<Rightarrow>
                 (json 500 [(''message'', JStr ''Failed to permanently delete emails''),
                    (''detail'', JStr (message err))], s')))"

section \<open>Attachment download: GET /download-attachment\<close>

text \<open>
  \<^verbatim>\<open>parseInt(index, 10)\<close>: leading white space, an optional sign, then the longest run of
  decimal digits; \<open>None\<close> is \<^verbatim>\<open>NaN\<close>.
\<close>

definition is_digit :: "char \<Rightarrow> bool" where
  "is_digit c = (c \<in> set ''0123456789'')"

definition digit_of :: "char \<Rightarrow> nat" where
  "digit_of c = of_char c - 48"

definition digits_value :: "string \<Rightarrow> nat" where
  "digits_value ds = foldl (\<lambda>acc c. 10 * acc + digit_of c) 0 ds"

definition parseInt10 :: "string \<Rightarrow> int option" where
  "parseInt10 str =
     (let t = dropWhile is_space str;
          neg = (case t of [] \<Rightarrow> False | c # r \<Rightarrow> c = CHR ''-'');
          u = (case t of [] \<Rightarrow> [] | c # r \<Rightarrow> if c = CHR ''-'' \<or> c = CHR ''+'' then r else t);
          ds = takeWhile is_digit u
      in if ds = [] then None
         else Some (if neg then - int (digits_value ds) else int (digits_value ds)))"

text \<open>
  \<^verbatim>\<open>parsed.attachments[n]\<close>: the element when \<open>n\<close> is an index of the array, undefined
  otherwise (\<^verbatim>\<open>NaN\<close>, a negative number, a number beyond the end).
\<close>

definition element_at :: "'a list \<Rightarrow> int option \<Rightarrow> 'a option" where
  "element_at xs n =
     (case n of
        None \<Rightarrow> None
      | Some i \<Rightarrow> if 0 \<le> i \<and> nat i < length xs then Some (xs ! nat i) else None)"

definition download_failed :: response where
  "download_failed = send_text 500 ''Could not download attachment.''"

text \<open>
  The handler. \<open>emailId\<close> and \<open>index\<close> are the query parameters. Reading an index of an
  undefined \<^verbatim>\<open>parsed.attachments\<close> throws, which the \<^verbatim>\<open>catch\<close> turns into status 500.
  The headers are those the handler sets.
\<close>

definition download_attachment ::
  "'s env \<Rightarrow> string option \<Rightarrow> string option \<Rightarrow> 's \<Rightarrow> response \<times> 's" where
  "download_attachment env emailId index s =
     (if \<not> truthy emailId \<or> index = None
      then (send_text 400 ''Missing email ID or attachment index.'', s)
      else
        (case s3_get env s (tmpl emailId) of
           (Inl err, s') \<Rightarrow> (download_failed, s')
         | (Inr rawEmail, s') \<Rightarrow>
             (case simpleParser env rawEmail of
                Inl err \<Rightarrow> (download_failed, s')
              | Inr p \<Rightarrow>
                  (case p_attachments p of
                     None \<Rightarrow> (download_failed, s')
                   | Some atts \<Rightarrow>
                       (case element_at atts (parseInt10 (tmpl index)) of
                          None \<Rightarrow> (send_text 404 ''Attachment not found at that index.'', s')
                        | Some a \<Rightarrow>
                            (\<lparr> status = 200,
                               headers =
                                 [(''Content-Disposition'',
                                     ''attachment; filename='' @ dq @ tmpl (filename a) @ dq),
                                  (''Content-Type'', contentType a)],
                               body = Binary (content a) \<rparr>, s'))))))"

section \<open>A reference object store and mail service\<close>

text \<open>
  The object store and the mail service are not part of the repository. For the claims
  about what is in the store after an operation, the services are instantiated with a
  reference model: a bucket is a finite table from keys to objects; a put or a copy writes
  the destination key, a delete removes the key, a get or a copy of an absent key is
  refused. Every request is recorded in \<open>calls\<close>, in the order of issue. Any request can
  also be refused by the service (unreachable, throttled, access denied): \<open>fault\<close> decides
  that from the requests so far and the request; a refused request changes nothing. A copy
  of an object onto its own key that changes nothing else (no new metadata, storage class or
  encryption) is refused as well, as the store documents (\<^verbatim>\<open>InvalidRequest\<close>); the copy
  request of the source carries only bucket, source and key.
\<close>

datatype call =
    ListObjectsV2 string "string option"
  | GetObject key
  | PutObject key bytes
  | CopyObject string key
  | DeleteObject key
  | DeleteObjects "key list"
  | SendEmail ses_command

record stored =
  data :: bytes
  modified :: int

record world =
  objects :: "(key \<times> stored) list"
  calls :: "call list"
  fault :: "call list \<Rightarrow> call \<Rightarrow> error option"
  clock :: "call list \<Rightarrow> int"
  next_id :: "call list \<Rightarrow> string option"

definition lookup :: "world \<Rightarrow> key \<Rightarrow> stored option" where
  "lookup w k = map_of (objects w) k"

definition remove_key :: "key \<Rightarrow> (key \<times> stored) list \<Rightarrow> (key \<times> stored) list" where
  "remove_key k tab = filter (\<lambda>(k', v). k' \<noteq> k) tab"

definition write_key :: "key \<Rightarrow> stored \<Rightarrow> (key \<times> stored) list \<Rightarrow> (key \<times> stored) list" where
  "write_key k v tab = (k, v) # remove_key k tab"

text \<open>A request: recorded, then refused or served by \<open>serve\<close>.\<close>

definition request ::
  "call \<Rightarrow> (world \<Rightarrow> (error + 'a) \<times> world) \<Rightarrow> world \<Rightarrow> (error + 'a) \<times> world" where
  "request c serve w =
     (let w1 = w\<lparr> calls := calls w @ [c] \<rparr> in
      case fault w (calls w) c of
        Some err \<Rightarrow> (Inl err, w1)
      | None \<Rightarrow> serve w1)"

fun occurs_in :: "string \<Rightarrow> string \<Rightarrow> bool" where
  "occurs_in d [] = (d = [])"
| "occurs_in d (c # cs) = (take (length d) (c # cs) = d \<or> occurs_in d cs)"

text \<open>
  A key is listed when it starts with the prefix and, with a delimiter, the delimiter does
  not occur behind the prefix.
\<close>

definition is_listed :: "string \<Rightarrow> string option \<Rightarrow> key \<Rightarrow> bool" where
  "is_listed prefix delimiter k =
     (take (length prefix) k = prefix \<and>
      (case delimiter of
         None \<Rightarrow> True
       | Some d \<Rightarrow> \<not> occurs_in d (drop (length prefix) k)))"

definition ref_list ::
  "world \<Rightarrow> string \<Rightarrow> string option \<Rightarrow> (error + s3entry list option) \<times> world" where
  "ref_list w prefix delimiter =
     request (ListObjectsV2 prefix delimiter)
       (\<lambda>w1. (Inr (Some (map (\<lambda>(k, v). \<lparr> Key = k, Size = length (data v), LastModified = modified v \<rparr>)
                 (filter (\<lambda>(k, v). is_listed prefix delimiter k) (objects w1)))), w1)) w"

definition ref_get :: "world \<Rightarrow> key \<Rightarrow> (error + bytes) \<times> world" where
  "ref_get w k =
     request (GetObject k)
       (\<lambda>w1. case lookup w1 k of
                None \<Rightarrow> (Inl (Error ''NoSuchKey''), w1)
              | Some v \<Rightarrow> (Inr (data v), w1)) w"

definition ref_put :: "world \<Rightarrow> key \<Rightarrow> bytes \<Rightarrow> (error + unit) \<times> world" where
  "ref_put w k payload =
     request (PutObject k payload)
       (\<lambda>w1. (Inr (),
          w1\<lparr> objects := write_key k \<lparr> data = payload, modified = clock w (calls w) \<rparr> (objects w1) \<rparr>)) w"

text \<open>\<open>CopySource\<close> is \<^verbatim>\<open>bucket/key\<close>; the client is bound to the bucket \<open>b\<close>.\<close>

definition ref_copy :: "string \<Rightarrow> world \<Rightarrow> string \<Rightarrow> key \<Rightarrow> (error + unit) \<times> world" where
  "ref_copy b w copySource k =
     request (CopyObject copySource k)
       (\<lambda>w1. if take (length b + 1) copySource \<noteq> b @ ''/''
              then (Inl (Error ''NoSuchBucket''), w1)
              else if drop (length b + 1) copySource = k
              then (Inl (Error ''InvalidRequest''), w1)
              else
                (case lookup w1 (drop (length b + 1) copySource) of
                   None \<Rightarrow> (Inl (Error ''NoSuchKey''), w1)
                 | Some v \<Rightarrow>
                     (Inr (),
                      w1\<lparr> objects :=
                            write_key k \<lparr> data = data v, modified = clock w (calls w) \<rparr> (objects w1) \<rparr>))) w"

definition ref_delete :: "world \<Rightarrow> key \<Rightarrow> (error + unit) \<times> world" where
  "ref_delete w k =
     request (DeleteObject k)
       (\<lambda>w1. (Inr (), w1\<lparr> objects := remove_key k (objects w1) \<rparr>)) w"

text \<open>
  A batch delete is one request. Within it each key is deleted or refused on its own; the
  refused keys come back in \<open>Errors\<close>, and the request as a whole still succeeds.
\<close>

definition refused :: "world \<Rightarrow> key \<Rightarrow> error option" where
  "refused w k = fault w (calls w) (DeleteObject k)"

definition ref_delete_objects :: "world \<Rightarrow> key list \<Rightarrow> (error + delete_result) \<times> world" where
  "ref_delete_objects w ks =
     request (DeleteObjects ks)
       (\<lambda>w1. (let ok = filter (\<lambda>k. refused w k = None) ks;
                   bad = filter (\<lambda>k. refused w k \<noteq> None) ks
               in (Inr \<lparr> Deleted = ok,
                         Errors = map (\<lambda>k. (k, case refused w k of None \<Rightarrow> [] | Some e \<Rightarrow> message e)) bad \<rparr>,
                   w1\<lparr> objects := foldr remove_key ok (objects w1) \<rparr>))) w"

definition ref_send :: "world \<Rightarrow> ses_command \<Rightarrow> (error + string option) \<times> world" where
  "ref_send w cmd = request (SendEmail cmd) (\<lambda>w1. (Inr (next_id w (calls w)), w1)) w"

definition ref_env :: "string \<Rightarrow> (bytes \<Rightarrow> error + parsed) \<Rightarrow> (bytes \<Rightarrow> string) \<Rightarrow> world env" where
  "ref_env b parser enc =
     \<lparr> S3_BUCKET = b,
       s3_list = ref_list,
       s3_get = ref_get,
       s3_put = ref_put,
       s3_copy = ref_copy b,
       s3_delete = ref_delete,
       s3_delete_objects = ref_delete_objects,
       ses_send = ref_send,
       simpleParser = parser,
       base64 = enc \<rparr>"

section \<open>Descending order\<close>

text \<open>The order of a mailbox view: no later entry is newer than an earlier one.\<close>

definition newest_first :: "s3entry \<Rightarrow> s3entry \<Rightarrow> bool" where
  "newest_first a b = (LastModified b \<le> LastModified a)"

section \<open>The snippet in words\<close>

text \<open>
  A second description of the text derived from an HTML body, written without regular
  expressions, to be compared with \<open>html_to_text\<close>.

  \<open>after_last w s\<close> is what follows the last occurrence of \<open>w\<close> in \<open>s\<close>. A block
  \<^verbatim>\<open>name\<close> starts where the text reads \<^verbatim>\<open><name\<close>, in exactly these letters, with a
  \<^verbatim>\<open>>\<close> behind it, and a closing \<^verbatim>\<open></name>\<close> behind that; it ends with the last
  closing tag of the whole text. \<open>strip_block\<close> removes the first block. \<open>strip_tags\<close> puts
  one space for everything from a \<^verbatim>\<open><\<close> to the next \<^verbatim>\<open>>\<close>. \<open>collapse_spaces\<close> puts
  one space for each run of white space.
\<close>

fun after_last :: "string \<Rightarrow> string \<Rightarrow> string option" where
  "after_last w [] = (if w = [] then Some [] else None)"
| "after_last w (c # cs) =
     (case after_last w cs of
        Some t \<Rightarrow> Some t
      | None \<Rightarrow> if take (length w) (c # cs) = w then Some (drop (length w) (c # cs)) else None)"







section \<open>Concrete worlds\<close>

text \<open>Small instances of the services, on which the theorems below are exercised.\<close>

definition quiet :: "call list \<Rightarrow> call \<Rightarrow> error option" where
  "quiet log c = None"

text \<open>A stand-in parser: the whole raw message is the plain-text body.\<close>

definition plain_parser :: "bytes \<Rightarrow> error + parsed" where
  "plain_parser raw =
     Inr \<lparr> p_text = Some raw, p_html = None, p_textAsHtml = None, p_from = Some ''a@x.com'',
           p_to = Some ''b@y.com'', p_headers = (\<lambda>h. None), p_subject = None, p_date = None,
           p_attachments = Some [] \<rparr>"

definition demo_env :: "world env" where
  "demo_env = ref_env ''bucket'' plain_parser (\<lambda>b. b)"

definition sent_world :: world where
  "sent_world =
     \<lparr> objects =
         [(''sent/'', \<lparr> data = [], modified = 5 \<rparr>),
          (''sent/a'', \<lparr> data = ''one'', modified = 10 \<rparr>),
          (''sent/b'', \<lparr> data = ''two'', modified = 30 \<rparr>),
          (''sent/c'', \<lparr> data = [], modified = 40 \<rparr>),
          (''note'', \<lparr> data = ''three'', modified = 50 \<rparr>)],
       calls = [], fault = quiet, clock = (\<lambda>log. 100), next_id = (\<lambda>log. Some ''mid-1'') \<rparr>"

definition sent_listing :: "s3entry list option" where
  "sent_listing =
     Some [\<lparr> Key = ''sent/'', Size = 0, LastModified = 5 \<rparr>,
           \<lparr> Key = ''sent/a'', Size = 3, LastModified = 10 \<rparr>,
           \<lparr> Key = ''sent/b'', Size = 3, LastModified = 30 \<rparr>,
           \<lparr> Key = ''sent/c'', Size = 0, LastModified = 40 \<rparr>]"

definition sent_view :: mailbox_view where
  "sent_view =
     \<lparr> emails =
         [\<lparr> em_id = ''sent/b'', em_from = ''a@x.com'', em_to = ''b@y.com'',
            em_sender = ''a@x.com'', em_subject = ''(no subject)'', em_date = 30,
            em_snippet = ''two'', em_htmlBody = [], em_hasAttachments = False,
            em_attachments = [] \<rparr>,
          \<lparr> em_id = ''sent/a'', em_from = ''a@x.com'', em_to = ''b@y.com'',
            em_sender = ''a@x.com'', em_subject = ''(no subject)'', em_date = 10,
            em_snippet = ''one'', em_htmlBody = [], em_hasAttachments = False,
            em_attachments = [] \<rparr>],
       totalCount = 2 \<rparr>"

text \<open>The same store, refusing every read of \<^verbatim>\<open>sent/a\<close>.\<close>

definition deny_get_a :: "call list \<Rightarrow> call \<Rightarrow> error option" where
  "deny_get_a log c = (if c = GetObject ''sent/a'' then Some (Error ''AccessDenied'') else None)"

definition faulty_world :: world where
  "faulty_world = sent_world\<lparr> fault := deny_get_a \<rparr>"

text \<open>Messages, requests and stores for the theorems on senders, attachments, sending and deleting.\<close>

definition bounce_message :: parsed where
  "bounce_message =
     \<lparr> p_text = Some ''hi'', p_html = None, p_textAsHtml = None,
       p_from = Some ''ses-bounce@aws'', p_to = Some ''b@y.com'',
       p_headers = (\<lambda>h. if h = ''x-maildeck-sender'' then Some ''a@x.com'' else None),
       p_subject = Some ''s'', p_date = None, p_attachments = Some [] \<rparr>"

definition some_entry :: s3entry where
  "some_entry = \<lparr> Key = ''k1'', Size = 2, LastModified = 7 \<rparr>"

definition one_attachment_parser :: "bytes \<Rightarrow> error + parsed" where
  "one_attachment_parser raw =
     Inr \<lparr> p_text = Some raw, p_html = None, p_textAsHtml = None, p_from = Some ''a@x.com'',
           p_to = Some ''b@y.com'', p_headers = (\<lambda>h. None), p_subject = None, p_date = None,
           p_attachments = Some [\<lparr> filename = Some ''f.txt'', att_size = 4,
                                   contentType = ''text/plain'', content = ''DATA'' \<rparr>] \<rparr>"

definition attachment_env :: "world env" where
  "attachment_env = ref_env ''bucket'' one_attachment_parser (\<lambda>b. b)"

definition stranger_request :: send_request where
  "stranger_request =
     \<lparr> b_from = Some ''mallory@evil.example'', b_to = Some ''b@y.com'', b_cc = None,
       b_bcc = None, b_subject = Some ''hello'', b_html = Some ''<p>hi</p>'', files = None \<rparr>"

definition admin_request :: send_request where
  "admin_request = stranger_request\<lparr> b_from := Some ''admin@oodac.com'' \<rparr>"

definition deny_put :: "call list \<Rightarrow> call \<Rightarrow> error option" where
  "deny_put log c = (case c of PutObject k v \<Rightarrow> Some (Error ''AccessDenied'') | _ \<Rightarrow> None)"

definition readonly_world :: world where
  "readonly_world = sent_world\<lparr> fault := deny_put \<rparr>"

definition deny_delete_mid2 :: "call list \<Rightarrow> call \<Rightarrow> error option" where
  "deny_delete_mid2 log c =
     (if c = DeleteObject ''sent/mid2'' then Some (Error ''AccessDenied'') else None)"

definition two_sent_world :: world where
  "two_sent_world =
     \<lparr> objects =
         [(''sent/mid1'', \<lparr> data = ''one'', modified = 10 \<rparr>),
          (''sent/mid2'', \<lparr> data = ''two'', modified = 30 \<rparr>)],
       calls = [], fault = deny_delete_mid2, clock = (\<lambda>log. 100),
       next_id = (\<lambda>log. Some ''mid-3'') \<rparr>"

text \<open>A store with a message in trash and one in the inbox, and a store with one message.\<close>

definition trash_world :: world where
  "trash_world =
     \<lparr> objects =
         [(''trash/x'', \<lparr> data = ''kept'', modified = 10 \<rparr>),
          (''key1'', \<lparr> data = ''mail'', modified = 20 \<rparr>)],
       calls = [], fault = quiet, clock = (\<lambda>log. 100), next_id = (\<lambda>log. None) \<rparr>"





section \<open>Sorting and selection\<close>

lemma set_insert_cmp: "set (insert_cmp cmp x ys) = insert x (set ys)"
  by (induction ys) auto

lemma length_insert_cmp: "length (insert_cmp cmp x ys) = Suc (length ys)"
  by (induction ys) auto

lemma set_js_sort: "set (js_sort cmp xs) = set xs"
  by (induction xs) (simp_all add: js_sort_def set_insert_cmp)

lemma length_js_sort: "length (js_sort cmp xs) = length xs"
  by (induction xs) (simp_all add: js_sort_def length_insert_cmp)

lemma sorted_insert_desc:
  "sorted_wrt newest_first ys \<Longrightarrow> sorted_wrt newest_first (insert_cmp by_last_modified_desc x ys)"
proof (induction ys)
  case Nil
  then show ?case by simp
next
  case (Cons y ys)
  show ?case
  proof (cases "by_last_modified_desc x y \<le> 0")
    case True
    then have xy: "newest_first x y"
      by (simp add: by_last_modified_desc_def newest_first_def)
    have "\<forall>z\<in>set ys. newest_first x z"
    proof
      fix z assume "z \<in> set ys"
      with Cons.prems have "newest_first y z" by simp
      with xy show "newest_first x z" by (simp add: newest_first_def)
    qed
    with True xy Cons.prems show ?thesis by simp
  next
    case False
    then have yx: "newest_first y x"
      by (simp add: by_last_modified_desc_def newest_first_def)
    from Cons have "sorted_wrt newest_first (insert_cmp by_last_modified_desc x ys)" by simp
    with False yx Cons.prems show ?thesis
      by (simp add: set_insert_cmp)
  qed
qed

lemma sorted_js_sort_desc: "sorted_wrt newest_first (js_sort by_last_modified_desc xs)"
  by (induction xs) (simp_all add: js_sort_def sorted_insert_desc)

lemma sorted_wrt_take: "sorted_wrt P xs \<Longrightarrow> sorted_wrt P (take n xs)"
  by (metis append_take_drop_id sorted_wrt_append)

lemma select_objects_sorted: "sorted_wrt newest_first (select_objects prefix contents)"
  by (simp add: select_objects_def sorted_wrt_take sorted_js_sort_desc)

lemma select_objects_length:
  "length (select_objects prefix contents) =
     min 100 (length (filter (\<lambda>obj. Key obj \<noteq> prefix \<and> 0 < Size obj) (listed contents)))"
  by (simp add: select_objects_def length_js_sort min.commute)

lemma select_objects_member:
  "obj \<in> set (select_objects prefix contents) \<Longrightarrow>
     Key obj \<noteq> prefix \<and> 0 < Size obj \<and> obj \<in> set (listed contents)"
  unfolding select_objects_def
  by (auto dest!: in_set_takeD simp: set_js_sort)

section \<open>The listing\<close>

lemma fetch_email_id: "fetch_email env obj s = (Inr e, s') \<Longrightarrow> em_id e = Key obj"
  by (auto simp: fetch_email_def to_email_def Let_def split: prod.splits sum.splits)

lemma promise_all_map: "promise_all rs = Inr vs \<Longrightarrow> rs = map Inr vs"
  by (induction rs arbitrary: vs) (auto split: sum.splits)

lemma fetch_all_ids: "fetch_all env objs s = (map Inr es, s') \<Longrightarrow> map em_id es = map Key objs"
proof (induction objs arbitrary: s es s')
  case Nil
  then show ?case by simp
next
  case (Cons obj objs)
  then show ?case
    by (auto split: prod.splits dest: fetch_email_id)
qed

lemma getEmails_view:
  assumes "fst (getEmailsFromS3 env prefix s) = Inr v"
    and "fst (s3_list env s prefix (list_delimiter prefix)) = Inr contents"
  shows "map em_id (emails v) = map Key (select_objects prefix contents)
     \<and> totalCount v = length (select_objects prefix contents)"
  using assms
  by (auto simp: getEmailsFromS3_def Let_def split: prod.splits sum.splits
      dest!: promise_all_map dest: fetch_all_ids)

lemma sent_world_listing:
  "fst (s3_list demo_env sent_world ''sent/'' (list_delimiter ''sent/'')) = Inr sent_listing"
  by (simp add: demo_env_def ref_env_def ref_list_def request_def sent_world_def quiet_def
      list_delimiter_def INBOX_PREFIX_def is_listed_def sent_listing_def)

lemma sent_world_view: "fst (getEmailsFromS3 demo_env ''sent/'' sent_world) = Inr sent_view"
  by (simp add: getEmailsFromS3_def demo_env_def ref_env_def ref_list_def ref_get_def
      request_def sent_world_def quiet_def list_delimiter_def INBOX_PREFIX_def is_listed_def
      select_objects_def listed_def js_sort_def by_last_modified_desc_def fetch_email_def
      lookup_def plain_parser_def to_email_def textSnippet_def or_str_def js_or_def truthy_def
      sent_view_def)

text \<open>
  C1. Whenever \<open>getEmailsFromS3\<close> returns a view for a prefix: its emails are, position by
  position, the selected objects; these are in descending order of \<open>LastModified\<close>; there
  are at most 100 of them; each one was listed, is not the prefix marker (its key differs
  from the prefix) and is not a zero-byte object; no email has the prefix as its id; and
  \<open>totalCount\<close> is the number of emails returned, that is the number of eligible listed
  objects cut off at 100, not the number of objects under the prefix.
\<close>

theorem listing_sorted_truncated:
  assumes "fst (getEmailsFromS3 env prefix s) = Inr v"
    and "fst (s3_list env s prefix (list_delimiter prefix)) = Inr contents"
  shows "map em_id (emails v) = map Key (select_objects prefix contents)
     \<and> sorted_wrt newest_first (select_objects prefix contents)
     \<and> length (emails v) \<le> 100
     \<and> (\<forall>obj \<in> set (select_objects prefix contents).
           Key obj \<noteq> prefix \<and> 0 < Size obj \<and> obj \<in> set (listed contents))
     \<and> (\<forall>e \<in> set (emails v). em_id e \<noteq> prefix)
     \<and> totalCount v = length (emails v)
     \<and> totalCount v =
         min 100 (length (filter (\<lambda>obj. Key obj \<noteq> prefix \<and> 0 < Size obj) (listed contents)))"
proof -
  let ?objs = "select_objects prefix contents"
  from getEmails_view [OF assms] have ids: "map em_id (emails v) = map Key ?objs"
    and cnt: "totalCount v = length ?objs"
    by simp_all
  from ids have len: "length (emails v) = length ?objs"
    by (metis length_map)
  have bound: "length ?objs \<le> 100"
    by (simp add: select_objects_length)
  have mem: "\<forall>obj \<in> set ?objs. Key obj \<noteq> prefix \<and> 0 < Size obj \<and> obj \<in> set (listed contents)"
    using select_objects_member by blast
  have "\<forall>e \<in> set (emails v). em_id e \<noteq> prefix"
  proof
    fix e assume "e \<in> set (emails v)"
    then have "em_id e \<in> set (map Key ?objs)"
      using ids by (metis image_eqI set_map)
    then obtain obj where "obj \<in> set ?objs" "em_id e = Key obj" by auto
    with mem show "em_id e \<noteq> prefix" by simp
  qed
  with ids cnt len bound mem show ?thesis
    by (simp add: select_objects_sorted select_objects_length)
qed

theorem listing_sorted_truncated_witness:
  "fst (getEmailsFromS3 demo_env ''sent/'' sent_world) = Inr sent_view
   \<and> fst (s3_list demo_env sent_world ''sent/'' (list_delimiter ''sent/'')) = Inr sent_listing
   \<and> map em_id (emails sent_view) = [''sent/b'', ''sent/a'']
   \<and> map Key (select_objects ''sent/'' sent_listing) = [''sent/b'', ''sent/a'']
   \<and> sorted_wrt newest_first (select_objects ''sent/'' sent_listing)
   \<and> totalCount sent_view = 2"
proof -
  note h1 = sent_world_view and h2 = sent_world_listing
  from listing_sorted_truncated [OF h1 h2]
  have "map em_id (emails sent_view) = map Key (select_objects ''sent/'' sent_listing)"
    and "sorted_wrt newest_first (select_objects ''sent/'' sent_listing)"
    and "totalCount sent_view = length (emails sent_view)"
    by simp_all
  with h1 h2 show ?thesis
    by (simp add: sent_view_def)
qed

lemma promise_all_Inl: "promise_all rs = Inl e \<Longrightarrow> Inl e \<in> set rs"
  by (induction rs) (auto split: sum.splits)

lemma promise_all_fails_one: "r \<in> set rs \<Longrightarrow> isl r \<Longrightarrow> \<exists>e. promise_all rs = Inl e"
  by (induction rs) (auto split: sum.splits)

lemma promise_all_fails: "\<exists>r \<in> set rs. isl r \<Longrightarrow> \<exists>e. promise_all rs = Inl e"
  using promise_all_fails_one by blast

lemma promise_all_succeeds: "\<forall>r \<in> set rs. \<not> isl r \<Longrightarrow> \<exists>vs. promise_all rs = Inr vs"
  by (induction rs) (auto split: sum.splits)

text \<open>
  C2 (amended). Given that the list request succeeds, the listing returns a view exactly
  when the fetch and the parse of every selected object succeed: if one of them fails,
  \<open>getEmailsFromS3\<close> fails with the error of a failed object, no view is returned for the
  remaining objects, and the route answers with status 500. Only when none fails are the
  results returned as the emails of the view (status 200).
\<close>

theorem listing_all_or_nothing:
  assumes "fst (s3_list env s prefix (list_delimiter prefix)) = Inr contents"
    and "results = fst (fetch_all env (select_objects prefix contents)
                          (snd (s3_list env s prefix (list_delimiter prefix))))"
  shows "if \<exists>r \<in> set results. isl r
         then (\<exists>e. fst (getEmailsFromS3 env prefix s) = Inl e \<and> Inl e \<in> set results)
              \<and> status (fst (folder_route env prefix failure s)) = 500
         else (\<exists>v. fst (getEmailsFromS3 env prefix s) = Inr v \<and> map Inr (emails v) = results)
              \<and> status (fst (folder_route env prefix failure s)) = 200"
proof -
  obtain s1 where l: "s3_list env s prefix (list_delimiter prefix) = (Inr contents, s1)"
    using assms(1) by (cases "s3_list env s prefix (list_delimiter prefix)") auto
  obtain s2 where f: "fetch_all env (select_objects prefix contents) s1 = (results, s2)"
    using assms(2) l by (cases "fetch_all env (select_objects prefix contents) s1") auto
  show ?thesis
  proof (cases "\<exists>r \<in> set results. isl r")
    case True
    then obtain e where e: "promise_all results = Inl e"
      using promise_all_fails by blast
    then have "Inl e \<in> set results" by (rule promise_all_Inl)
    with True e l f show ?thesis
      by (auto simp: getEmailsFromS3_def folder_route_def json_def Let_def)
  next
    case False
    then obtain vs where vs: "promise_all results = Inr vs"
      using promise_all_succeeds by blast
    then have "results = map Inr vs" by (rule promise_all_map)
    with False vs l f show ?thesis
      by (auto simp: getEmailsFromS3_def folder_route_def json_def Let_def)
  qed
qed



lemma folder_route_status:
  "status (fst (folder_route env prefix failure s)) =
     (case fst (getEmailsFromS3 env prefix s) of Inl e \<Rightarrow> 500 | Inr v \<Rightarrow> 200)"
  by (simp add: folder_route_def json_def split: prod.splits sum.splits)

lemma faulty_world_listing:
  "fst (s3_list demo_env faulty_world ''sent/'' (list_delimiter ''sent/'')) = Inr sent_listing"
  by (simp add: demo_env_def ref_env_def ref_list_def request_def sent_world_def
      faulty_world_def deny_get_a_def list_delimiter_def INBOX_PREFIX_def is_listed_def
      sent_listing_def)

lemma faulty_world_results:
  "fst (fetch_all demo_env (select_objects ''sent/'' sent_listing)
          (snd (s3_list demo_env faulty_world ''sent/'' (list_delimiter ''sent/''))))
     = [Inr (hd (emails sent_view)), Inl (Error ''AccessDenied'')]"
  by (simp add: demo_env_def ref_env_def ref_list_def ref_get_def request_def sent_world_def
      faulty_world_def deny_get_a_def list_delimiter_def INBOX_PREFIX_def is_listed_def
      select_objects_def listed_def js_sort_def by_last_modified_desc_def fetch_email_def
      lookup_def plain_parser_def to_email_def textSnippet_def or_str_def js_or_def truthy_def
      sent_view_def sent_listing_def)

lemma sent_world_results:
  "fst (fetch_all demo_env (select_objects ''sent/'' sent_listing)
          (snd (s3_list demo_env sent_world ''sent/'' (list_delimiter ''sent/''))))
     = map Inr (emails sent_view)"
  by (simp add: demo_env_def ref_env_def ref_list_def ref_get_def request_def sent_world_def
      quiet_def list_delimiter_def INBOX_PREFIX_def is_listed_def
      select_objects_def listed_def js_sort_def by_last_modified_desc_def fetch_email_def
      lookup_def plain_parser_def to_email_def textSnippet_def or_str_def js_or_def truthy_def
      sent_view_def sent_listing_def)

text \<open>
  C2 as claimed fails: the list request succeeds, the fetch of \<^verbatim>\<open>sent/b\<close> succeeds and
  only the fetch of \<^verbatim>\<open>sent/a\<close> is refused, yet no view comes back.
\<close>

theorem listing_isolation_counterexample:
  "fst (s3_list demo_env faulty_world ''sent/'' (list_delimiter ''sent/'')) = Inr sent_listing
   \<and> fst (fetch_all demo_env (select_objects ''sent/'' sent_listing)
            (snd (s3_list demo_env faulty_world ''sent/'' (list_delimiter ''sent/''))))
       = [Inr (hd (emails sent_view)), Inl (Error ''AccessDenied'')]
   \<and> fst (getEmailsFromS3 demo_env ''sent/'' faulty_world) = Inl (Error ''AccessDenied'')
   \<and> status (fst (get_sent demo_env faulty_world)) = 500"
proof -
  have "fst (getEmailsFromS3 demo_env ''sent/'' faulty_world) = Inl (Error ''AccessDenied'')"
    by (simp add: getEmailsFromS3_def demo_env_def ref_env_def ref_list_def ref_get_def
      request_def sent_world_def faulty_world_def deny_get_a_def list_delimiter_def
      INBOX_PREFIX_def is_listed_def select_objects_def listed_def js_sort_def
      by_last_modified_desc_def fetch_email_def lookup_def plain_parser_def to_email_def
      textSnippet_def or_str_def js_or_def truthy_def)
  then have "status (fst (get_sent demo_env faulty_world)) = 500"
    by (simp add: get_sent_def folder_route_status SENT_PREFIX_def)
  with \<open>fst (getEmailsFromS3 demo_env ''sent/'' faulty_world) = Inl (Error ''AccessDenied'')\<close>
  show ?thesis
    using faulty_world_listing faulty_world_results by simp
qed

theorem listing_all_or_nothing_witness:
  "fst (s3_list demo_env faulty_world ''sent/'' (list_delimiter ''sent/'')) = Inr sent_listing
   \<and> isl (fst (getEmailsFromS3 demo_env ''sent/'' faulty_world))
   \<and> status (fst (folder_route demo_env ''sent/'' ''Failed to load sent items'' faulty_world)) = 500
   \<and> fst (s3_list demo_env sent_world ''sent/'' (list_delimiter ''sent/'')) = Inr sent_listing
   \<and> fst (getEmailsFromS3 demo_env ''sent/'' sent_world) = Inr sent_view
   \<and> status (fst (folder_route demo_env ''sent/'' ''Failed to load sent items'' sent_world)) = 200"
proof -
  have bad: "\<exists>r \<in> set [Inr (hd (emails sent_view)), Inl (Error ''AccessDenied'')]. isl r"
    by simp
  have good: "\<not> (\<exists>r \<in> set (map Inr (emails sent_view) :: (error + email) list). isl r)"
    by auto
  from listing_all_or_nothing [OF faulty_world_listing faulty_world_results [symmetric],
      of "''Failed to load sent items''"] bad
  have 1: "isl (fst (getEmailsFromS3 demo_env ''sent/'' faulty_world))
      \<and> status (fst (folder_route demo_env ''sent/'' ''Failed to load sent items'' faulty_world)) = 500"
    by auto
  from listing_all_or_nothing [OF sent_world_listing sent_world_results [symmetric],
      of "''Failed to load sent items''"] good
  have 2: "status (fst (folder_route demo_env ''sent/'' ''Failed to load sent items'' sent_world)) = 200"
    by presburger
  from 1 2 show ?thesis
    using faulty_world_listing sent_world_listing sent_world_view by simp
qed

section \<open>Sender, attachments, sending, deleting\<close>

lemma tmpl_Some [simp]: "tmpl (Some t) = t"
  by (simp add: tmpl_def)

text \<open>
  C8. The sender of a listed message is the value of the \<^verbatim>\<open>x-maildeck-sender\<close> header
  (the parser keys headers by their lower-cased names) whenever the message carries one with
  a non-empty value, whatever its \<^verbatim>\<open>From\<close>; without that header it is the text of
  \<^verbatim>\<open>From\<close>, and the empty string when there is no \<^verbatim>\<open>From\<close> either.
\<close>

theorem sender_prefers_trace_header:
  "(p_headers p ''x-maildeck-sender'' = Some v \<and> v \<noteq> []
      \<longrightarrow> em_sender (to_email obj p) = v)
   \<and> (p_headers p ''x-maildeck-sender'' = None \<and> p_from p = Some f
      \<longrightarrow> em_sender (to_email obj p) = f)
   \<and> (p_headers p ''x-maildeck-sender'' = None \<and> p_from p = None
      \<longrightarrow> em_sender (to_email obj p) = [])"
  by (auto simp: to_email_def or_str_def js_or_def truthy_def Let_def)

theorem sender_prefers_trace_header_witness:
  "p_headers bounce_message ''x-maildeck-sender'' = Some ''a@x.com''
   \<and> p_from bounce_message = Some ''ses-bounce@aws''
   \<and> em_sender (to_email some_entry bounce_message) = ''a@x.com''
   \<and> p_headers (bounce_message\<lparr> p_headers := (\<lambda>h. None) \<rparr>) ''x-maildeck-sender'' = None
   \<and> em_sender (to_email some_entry (bounce_message\<lparr> p_headers := (\<lambda>h. None) \<rparr>))
       = ''ses-bounce@aws''"
  using sender_prefers_trace_header [where p = bounce_message and v = "''a@x.com''"
      and obj = some_entry]
    sender_prefers_trace_header [where p = "bounce_message\<lparr> p_headers := (\<lambda>h. None) \<rparr>"
      and f = "''ses-bounce@aws''" and obj = some_entry]
  by (simp add: bounce_message_def)

text \<open>
  C9. When the message is fetched and parsed and the index parses to a number that is at
  least the number of attachments, the answer is status 404 with a text body: no header of
  the attachment is set and no attachment content is sent.
\<close>

theorem attachment_out_of_range:
  assumes "truthy emailId" and "index = Some i"
    and "fst (s3_get env s (tmpl emailId)) = Inr rawEmail"
    and "simpleParser env rawEmail = Inr p"
    and "p_attachments p = Some atts"
    and "parseInt10 i = Some n" and "int (length atts) \<le> n"
  shows "fst (download_attachment env emailId index s)
           = \<lparr> status = 404, headers = [], body = Text ''Attachment not found at that index.'' \<rparr>"
  using assms
  by (auto simp: download_attachment_def element_at_def send_text_def tmpl_def split: prod.splits)

theorem attachment_out_of_range_witness:
  "truthy (Some ''sent/a'')
   \<and> fst (s3_get attachment_env sent_world (tmpl (Some ''sent/a''))) = Inr ''one''
   \<and> parseInt10 ''1'' = Some 1
   \<and> fst (download_attachment attachment_env (Some ''sent/a'') (Some ''1'') sent_world)
       = \<lparr> status = 404, headers = [], body = Text ''Attachment not found at that index.'' \<rparr>
   \<and> body (fst (download_attachment attachment_env (Some ''sent/a'') (Some ''0'') sent_world))
       = Binary ''DATA''"
proof -
  have t: "truthy (Some ''sent/a'')" by (simp add: truthy_def)
  have g: "fst (s3_get attachment_env sent_world (tmpl (Some ''sent/a''))) = Inr ''one''"
    by (simp add: attachment_env_def ref_env_def ref_get_def request_def sent_world_def
        quiet_def lookup_def tmpl_def)
  have p: "simpleParser attachment_env ''one'' = one_attachment_parser ''one''"
    by (simp add: attachment_env_def ref_env_def)
  have n: "parseInt10 ''1'' = Some 1"
    by (simp add: parseInt10_def is_space_def is_digit_def digits_value_def digit_of_def)
  have inrange: "body (fst (download_attachment attachment_env (Some ''sent/a'') (Some ''0'') sent_world))
       = Binary ''DATA''"
    by (simp add: download_attachment_def attachment_env_def ref_env_def ref_get_def request_def
        sent_world_def quiet_def lookup_def tmpl_def truthy_def one_attachment_parser_def
        element_at_def parseInt10_def is_space_def is_digit_def digits_value_def digit_of_def)
  from attachment_out_of_range [OF t refl g, where i = "''1''" and n = 1,
      unfolded p one_attachment_parser_def, OF refl _ n]
  have "fst (download_attachment attachment_env (Some ''sent/a'') (Some ''1'') sent_world)
       = \<lparr> status = 404, headers = [], body = Text ''Attachment not found at that index.'' \<rparr>"
    by simp
  with t g n inrange show ?thesis by simp
qed

text \<open>
  C6. A send request with non-empty from, to, subject and html whose from is not among the
  verified senders is answered with status 403, and the state of the services is returned
  as it was. This holds for every client, also one that records each request it receives:
  neither the mail service nor the object store is called.
\<close>

theorem send_rejects_unlisted_sender:
  assumes "b_from req = Some f" and "f \<noteq> []" and "f \<notin> set getVerifiedSenders"
    and "truthy (b_to req)" and "truthy (b_subject req)" and "truthy (b_html req)"
  shows "send_email env req s =
     (json 403 [(''message'', JStr (''Sending from '' @ f @ '' is not permitted or verified.''))], s)"
  using assms by (simp add: send_email_def truthy_def tmpl_def)

theorem send_rejects_unlisted_sender_witness:
  "b_from stranger_request = Some ''mallory@evil.example''
   \<and> ''mallory@evil.example'' \<notin> set getVerifiedSenders
   \<and> truthy (b_to stranger_request) \<and> truthy (b_subject stranger_request)
   \<and> truthy (b_html stranger_request)
   \<and> status (fst (send_email demo_env stranger_request sent_world)) = 403
   \<and> calls (snd (send_email demo_env stranger_request sent_world)) = []
   \<and> objects (snd (send_email demo_env stranger_request sent_world)) = objects sent_world"
proof -
  have h: "b_from stranger_request = Some ''mallory@evil.example''"
    "''mallory@evil.example'' \<noteq> []"
    "''mallory@evil.example'' \<notin> set getVerifiedSenders"
    "truthy (b_to stranger_request)" "truthy (b_subject stranger_request)"
    "truthy (b_html stranger_request)"
    by (simp_all add: stranger_request_def getVerifiedSenders_def truthy_def)
  from send_rejects_unlisted_sender [OF h, of demo_env sent_world] h
  show ?thesis by (simp add: json_def sent_world_def)
qed

text \<open>
  C3 (amended). For a send request that passes validation and whose dispatch succeeds, a
  failure of the following put under \<^verbatim>\<open>sent/\<close> is caught by the same \<^verbatim>\<open>catch\<close> as a
  dispatch failure: the caller gets status 500, "Failed to send email", with the message of
  the store's error, and no message id.
\<close>

theorem send_fails_when_persistence_fails:
  assumes "b_from req = Some f" and "f \<in> set getVerifiedSenders"
    and "truthy (b_to req)" and "truthy (b_subject req)" and "truthy (b_html req)"
    and "fst (ses_send env s (send_command req (build_raw env req))) = Inr messageId"
    and "fst (s3_put env (snd (ses_send env s (send_command req (build_raw env req))))
           (SENT_PREFIX @ tmpl messageId) (build_raw env req)) = Inl err"
  shows "fst (send_email env req s) =
     json 500 [(''message'', JStr ''Failed to send email''), (''detail'', JStr (message err))]"
proof -
  from assms(1,2) have ok: "truthy (b_from req)" "tmpl (b_from req) \<in> set getVerifiedSenders"
    by (auto simp: truthy_def tmpl_def getVerifiedSenders_def)
  obtain s1 where d: "ses_send env s (send_command req (build_raw env req)) = (Inr messageId, s1)"
    using assms(6) by (cases "ses_send env s (send_command req (build_raw env req))") auto
  with assms(7) obtain s2 where
    "s3_put env s1 (SENT_PREFIX @ tmpl messageId) (build_raw env req) = (Inl err, s2)"
    by (cases "s3_put env s1 (SENT_PREFIX @ tmpl messageId) (build_raw env req)") auto
  with d ok assms(3-5) show ?thesis
    by (simp add: send_email_def Let_def send_failed_def)
qed

lemma readonly_dispatch:
  "fst (ses_send demo_env readonly_world (send_command admin_request (build_raw demo_env admin_request)))
     = Inr (Some ''mid-1'')"
  by (simp add: demo_env_def ref_env_def ref_send_def request_def readonly_world_def
      sent_world_def deny_put_def)

lemma readonly_persist:
  "fst (s3_put demo_env
          (snd (ses_send demo_env readonly_world
                  (send_command admin_request (build_raw demo_env admin_request))))
          (SENT_PREFIX @ tmpl (Some ''mid-1'')) (build_raw demo_env admin_request))
     = Inl (Error ''AccessDenied'')"
  by (simp add: demo_env_def ref_env_def ref_send_def ref_put_def request_def
      readonly_world_def sent_world_def deny_put_def)

text \<open>
  C3 as claimed fails: on a store that refuses every put, the message is dispatched (the
  mail service returns the id \<^verbatim>\<open>mid-1\<close>), the put is refused, and the caller is told that
  sending failed.
\<close>

theorem send_persistence_counterexample:
  "fst (ses_send demo_env readonly_world
          (send_command admin_request (build_raw demo_env admin_request))) = Inr (Some ''mid-1'')
   \<and> fst (send_email demo_env admin_request readonly_world) =
       json 500 [(''message'', JStr ''Failed to send email''), (''detail'', JStr ''AccessDenied'')]
   \<and> calls (snd (send_email demo_env admin_request readonly_world)) =
       [SendEmail (send_command admin_request (build_raw demo_env admin_request)),
        PutObject ''sent/mid-1'' (build_raw demo_env admin_request)]
   \<and> objects (snd (send_email demo_env admin_request readonly_world)) = objects sent_world"
proof -
  have v: "truthy (b_from admin_request)" "truthy (b_to admin_request)"
    "truthy (b_subject admin_request)" "truthy (b_html admin_request)"
    "tmpl (b_from admin_request) \<in> set getVerifiedSenders"
    by (simp_all add: admin_request_def stranger_request_def truthy_def tmpl_def
        getVerifiedSenders_def)
  have "send_email demo_env admin_request readonly_world =
      (json 500 [(''message'', JStr ''Failed to send email''), (''detail'', JStr ''AccessDenied'')],
       readonly_world\<lparr> calls :=
         [SendEmail (send_command admin_request (build_raw demo_env admin_request)),
          PutObject ''sent/mid-1'' (build_raw demo_env admin_request)] \<rparr>)"
    using v
    by (simp add: send_email_def Let_def send_failed_def SENT_PREFIX_def json_def
        demo_env_def [unfolded ref_env_def] ref_send_def ref_put_def request_def
        readonly_world_def sent_world_def deny_put_def)
  then show ?thesis
    using readonly_dispatch by (simp add: readonly_world_def)
qed

theorem send_fails_when_persistence_fails_witness:
  "b_from admin_request = Some ''admin@oodac.com''
   \<and> ''admin@oodac.com'' \<in> set getVerifiedSenders
   \<and> truthy (b_to admin_request) \<and> truthy (b_subject admin_request)
   \<and> truthy (b_html admin_request)
   \<and> fst (ses_send demo_env readonly_world
            (send_command admin_request (build_raw demo_env admin_request))) = Inr (Some ''mid-1'')
   \<and> status (fst (send_email demo_env admin_request readonly_world)) = 500"
proof -
  have h: "b_from admin_request = Some ''admin@oodac.com''"
    "''admin@oodac.com'' \<in> set getVerifiedSenders"
    "truthy (b_to admin_request)" "truthy (b_subject admin_request)"
    "truthy (b_html admin_request)"
    by (simp_all add: admin_request_def stranger_request_def truthy_def getVerifiedSenders_def)
  from send_fails_when_persistence_fails [OF h readonly_dispatch readonly_persist] h
    readonly_dispatch
  show ?thesis by (simp add: json_def)
qed

text \<open>
  C4 (amended). For a non-empty list of keys, the answer of the batch delete is not read:
  whenever the request itself completes the operation reports full success for all the keys
  ("Permanently deleted n email(s)."), whatever per-key errors the store reports; only a
  failure of the request as a whole is reported, with status 500.
\<close>

theorem delete_ignores_per_key_errors:
  assumes "ids \<noteq> []"
  shows "fst (delete_permanently env (Some ids) s) =
     (case fst (s3_delete_objects env s ids) of
        Inr answer \<Rightarrow>
          json 200 [(''success'', JBool True),
            (''message'', JStr (''Permanently deleted '' @ show_nat (length ids) @ '' email(s).''))]
      | Inl err \<Rightarrow>
          json 500 [(''message'', JStr ''Failed to permanently delete emails''),
            (''detail'', JStr (message err))])"
  using assms
  by (simp add: delete_permanently_def split: prod.splits sum.splits)

lemma two_sent_answer:
  "fst (s3_delete_objects demo_env two_sent_world [''sent/mid1'', ''sent/mid2'']) =
     Inr \<lparr> Deleted = [''sent/mid1''], Errors = [(''sent/mid2'', ''AccessDenied'')] \<rparr>"
  by (simp add: demo_env_def ref_env_def ref_delete_objects_def request_def refused_def
      two_sent_world_def deny_delete_mid2_def)

text \<open>
  C4 as claimed fails: the store deletes \<^verbatim>\<open>sent/mid1\<close> and reports an error for
  \<^verbatim>\<open>sent/mid2\<close>, which stays in the store; the operation reports that 2 emails were
  deleted.
\<close>

theorem delete_partial_counterexample:
  "fst (s3_delete_objects demo_env two_sent_world [''sent/mid1'', ''sent/mid2'']) =
     Inr \<lparr> Deleted = [''sent/mid1''], Errors = [(''sent/mid2'', ''AccessDenied'')] \<rparr>
   \<and> fst (delete_permanently demo_env (Some [''sent/mid1'', ''sent/mid2'']) two_sent_world) =
       json 200 [(''success'', JBool True), (''message'', JStr ''Permanently deleted 2 email(s).'')]
   \<and> map fst (objects (snd (delete_permanently demo_env (Some [''sent/mid1'', ''sent/mid2''])
         two_sent_world))) = [''sent/mid2'']"
proof -
  have "delete_permanently demo_env (Some [''sent/mid1'', ''sent/mid2'']) two_sent_world =
     (json 200 [(''success'', JBool True), (''message'', JStr ''Permanently deleted 2 email(s).'')],
      two_sent_world\<lparr> calls := [DeleteObjects [''sent/mid1'', ''sent/mid2'']],
        objects := [(''sent/mid2'', \<lparr> data = ''two'', modified = 30 \<rparr>)] \<rparr>)"
    by (simp add: delete_permanently_def demo_env_def ref_env_def ref_delete_objects_def
        request_def refused_def two_sent_world_def deny_delete_mid2_def remove_key_def
        digit_char_def)
  then show ?thesis
    using two_sent_answer by simp
qed

theorem delete_ignores_per_key_errors_witness:
  "[''sent/mid1'', ''sent/mid2''] \<noteq> []
   \<and> Errors (projr (fst (s3_delete_objects demo_env two_sent_world [''sent/mid1'', ''sent/mid2''])))
       = [(''sent/mid2'', ''AccessDenied'')]
   \<and> status (fst (delete_permanently demo_env (Some [''sent/mid1'', ''sent/mid2'']) two_sent_world))
       = 200"
  using delete_ignores_per_key_errors [of "[''sent/mid1'', ''sent/mid2'']" demo_env two_sent_world]
    two_sent_answer
  by (simp add: json_def)

section \<open>Moving to trash on the reference store\<close>

lemma basename_plain: "x \<noteq> [] \<Longrightarrow> CHR ''/'' \<notin> set x \<Longrightarrow> basename (pre @ CHR ''/'' # x) = x"
proof -
  assume x: "x \<noteq> []" and ns: "CHR ''/'' \<notin> set x"
  from x obtain c cs where r: "rev x = c # cs" by (cases "rev x") auto
  with ns have c: "c \<noteq> CHR ''/''" by (metis list.set_intros(1) set_rev)
  have "dropWhile (\<lambda>c. c = CHR ''/'') (rev (pre @ CHR ''/'' # x)) = rev x @ CHR ''/'' # rev pre"
    using r c by simp
  moreover have "takeWhile (\<lambda>c. c \<noteq> CHR ''/'') (rev x @ CHR ''/'' # rev pre) = rev x"
    using ns by (auto simp: takeWhile_tail)
  ultimately show ?thesis by (simp add: basename_def)
qed

lemma trash_key_of_trashed:
  "x \<noteq> [] \<Longrightarrow> CHR ''/'' \<notin> set x \<Longrightarrow> trash_key (TRASH_PREFIX @ x) = TRASH_PREFIX @ x"
  using basename_plain [of x "''trash''"] by (simp add: trash_key_def TRASH_PREFIX_def)













text \<open>For every client: when the copy is refused, the handler answers 500 without a delete.\<close>

lemma copy_refused_route:
  assumes "fst (s3_copy env s (S3_BUCKET env @ ''/'' @ k) (trash_key k)) = Inl err"
  shows "move_to_trash env (Some [k]) s =
     (json 500 [(''message'', JStr ''Failed to move emails to trash''),
        (''detail'', JStr (message err))],
      snd (s3_copy env s (S3_BUCKET env @ ''/'' @ k) (trash_key k)))"
  using assms
  by (cases "s3_copy env s (S3_BUCKET env @ ''/'' @ k) (trash_key k)")
     (simp add: move_to_trash_def)

lemma ref_copy_self:
  "\<exists>err. ref_copy b w (b @ ''/'' @ k) k =
     (Inl err, w\<lparr> calls := calls w @ [CopyObject (b @ ''/'' @ k) k] \<rparr>)"
  by (simp add: ref_copy_def request_def Let_def split: option.splits)

text \<open>
  C10 (amended). For an id \<^verbatim>\<open>trash/x\<close> with \<open>x\<close> non-empty and free of slashes, the
  destination key computed by the handler is the id itself, so the copy request names the
  same key as source and destination. The store refuses that request: the handler answers
  with status 500, the delete is never issued, and the objects of the store are what they
  were; the message stays in trash.
\<close>

theorem trashed_key_copy_refused:
  assumes "x \<noteq> []" and "CHR ''/'' \<notin> set x"
  shows "trash_key (TRASH_PREFIX @ x) = TRASH_PREFIX @ x
     \<and> status (fst (move_to_trash (ref_env b parser enc) (Some [TRASH_PREFIX @ x]) w)) = 500
     \<and> objects (snd (move_to_trash (ref_env b parser enc) (Some [TRASH_PREFIX @ x]) w)) = objects w
     \<and> calls (snd (move_to_trash (ref_env b parser enc) (Some [TRASH_PREFIX @ x]) w))
         = calls w @ [CopyObject (b @ ''/'' @ TRASH_PREFIX @ x) (TRASH_PREFIX @ x)]"
proof -
  let ?k = "TRASH_PREFIX @ x"
  let ?env = "ref_env b parser enc"
  have same: "trash_key ?k = ?k"
    using assms by (rule trash_key_of_trashed)
  from ref_copy_self [of b w ?k] obtain err where
    c: "ref_copy b w (b @ ''/'' @ ?k) ?k = (Inl err, w\<lparr> calls := calls w @ [CopyObject (b @ ''/'' @ ?k) ?k] \<rparr>)"
    by blast
  then have "fst (s3_copy ?env w (S3_BUCKET ?env @ ''/'' @ ?k) (trash_key ?k)) = Inl err"
    by (simp add: same ref_env_def)
  from copy_refused_route [OF this] c same
  have "move_to_trash ?env (Some [?k]) w =
     (json 500 [(''message'', JStr ''Failed to move emails to trash''),
        (''detail'', JStr (message err))],
      w\<lparr> calls := calls w @ [CopyObject (b @ ''/'' @ ?k) ?k] \<rparr>)"
    by (simp add: ref_env_def)
  with same show ?thesis by (simp add: json_def)
qed

text \<open>
  C10 as claimed fails: for \<^verbatim>\<open>trash/x\<close> the only request is the refused copy, the answer
  is status 500, and the message is still stored under \<^verbatim>\<open>trash/x\<close>.
\<close>

theorem trashed_key_counterexample:
  "status (fst (move_to_trash demo_env (Some [''trash/x'']) trash_world)) = 500
   \<and> calls (snd (move_to_trash demo_env (Some [''trash/x'']) trash_world))
       = [CopyObject ''bucket/trash/x'' ''trash/x'']
   \<and> lookup (snd (move_to_trash demo_env (Some [''trash/x'']) trash_world)) ''trash/x''
       = Some \<lparr> data = ''kept'', modified = 10 \<rparr>"
  by (simp add: move_to_trash_def demo_env_def ref_env_def ref_copy_def
      request_def lookup_def trash_world_def quiet_def trash_key_def TRASH_PREFIX_def
      basename_def json_def)

theorem trashed_key_copy_refused_witness:
  "''x'' \<noteq> [] \<and> CHR ''/'' \<notin> set ''x''
   \<and> trash_key ''trash/x'' = ''trash/x''
   \<and> status (fst (move_to_trash demo_env (Some [''trash/x'']) trash_world)) = 500
   \<and> objects (snd (move_to_trash demo_env (Some [''trash/x'']) trash_world)) = objects trash_world"
proof -
  have h: "''x'' \<noteq> []" "CHR ''/'' \<notin> set ''x''" by simp_all
  from trashed_key_copy_refused [OF h, of "''bucket''" plain_parser "\<lambda>b. b" trash_world] h
  show ?thesis by (simp add: TRASH_PREFIX_def demo_env_def)
qed

section \<open>The snippet\<close>






















text \<open>\<open>after_last\<close> returns what follows an occurrence of the word.\<close>

lemma after_last_occurrence: "after_last w s = Some t \<Longrightarrow> \<exists>pre. s = pre @ w @ t"
proof (induction s)
  case Nil
  then show ?case by (auto split: if_splits)
next
  case (Cons c cs)
  show ?case
  proof (cases "after_last w cs")
    case None
    with Cons.prems have "take (length w) (c # cs) = w" "t = drop (length w) (c # cs)"
      by (auto split: if_splits)
    then have "c # cs = [] @ w @ t"
      by (metis append_Nil append_take_drop_id)
    then show ?thesis by blast
  next
    case (Some t')
    with Cons obtain pre where "cs = pre @ w @ t" by auto
    then have "c # cs = (c # pre) @ w @ t" by simp
    then show ?thesis by blast
  qed
qed




text \<open>The patterns of the source have no \<^verbatim>\<open>i\<close> flag: a block in upper case keeps its content.\<close>

lemma upper_case_text: "html_to_text ''<STYLE>.x{}</STYLE><p>Hello</p>'' = ''.x{} Hello''"
  by (simp add: html_to_text_def block_rx_def tag_rx_def ws_rx_def lits_def trim_def is_space_def)




end
